theory Spec2Isabelle
  imports Complex_Main
begin

section \<open>Strings\<close>

text \<open>
  JavaScript strings are modelled as \<^typ>\<open>string\<close>. The source only ever looks for the
  ASCII characters \<open>.\<close> and \<open>/\<close> and compares with ASCII literals, so the byte view and
  the UTF-16 view agree on every test made here. \<open>toLowerCase\<close> and \<open>toUpperCase\<close> are
  modelled on the ASCII letters; no character outside ASCII lower-cases to one of the
  letters of \<open>pdf\<close>, \<open>docx\<close>, \<open>txt\<close>.
\<close>

definition upper_letters :: string where
  "upper_letters = ''ABCDEFGHIJKLMNOPQRSTUVWXYZ''"

definition lower_letters :: string where
  "lower_letters = ''abcdefghijklmnopqrstuvwxyz''"

definition toLowerCase_char :: "char \<Rightarrow> char" where
  "toLowerCase_char c =
     (case map_of (zip upper_letters lower_letters) c of Some l \<Rightarrow> l | None \<Rightarrow> c)"

definition toUpperCase_char :: "char \<Rightarrow> char" where
  "toUpperCase_char c =
     (case map_of (zip lower_letters upper_letters) c of Some u \<Rightarrow> u | None \<Rightarrow> c)"

definition toLowerCase :: "string \<Rightarrow> string" where
  "toLowerCase s = map toLowerCase_char s"

definition toUpperCase :: "string \<Rightarrow> string" where
  "toUpperCase s = map toUpperCase_char s"

text \<open>\<open>s.split('.')\<close>: the segments between the dots; never the empty array.\<close>

fun split_dot :: "string \<Rightarrow> string list" where
  "split_dot [] = [[]]"
| "split_dot (c # cs) =
     (if c = CHR ''.'' then [] # split_dot cs
      else (case split_dot cs of
              [] \<Rightarrow> [[c]]
            | seg # segs \<Rightarrow> (c # seg) # segs))"

text \<open>\<open>segments.pop()\<close> returns the last segment.\<close>

definition pop :: "string list \<Rightarrow> string" where
  "pop segs = last segs"

text \<open>
  \<open>s.replace(/\.[^/.]+$/, '')\<close>: a match is a dot followed by one or more characters,
  none of them a dot or a slash, up to the end of the string. Such a match is unique
  when it exists; it is removed. Without a match the string is returned as it is.
\<close>

definition strip_extension :: "string \<Rightarrow> string" where
  "strip_extension s =
     (let ext = takeWhile (\<lambda>c. c \<noteq> CHR ''.'' \<and> c \<noteq> CHR ''/'') (rev s);
          rest = drop (length ext) (rev s)
      in if ext \<noteq> [] \<and> rest \<noteq> [] \<and> hd rest = CHR ''.''
         then rev (tl rest) else s)"

text \<open>Decimal rendering of a number inside a template literal.\<close>

fun string_of_nat :: "nat \<Rightarrow> string" where
  "string_of_nat n =
     (if n < 10 then [''0123456789'' ! n]
      else string_of_nat (n div 10) @ [''0123456789'' ! (n mod 10)])"

declare string_of_nat.simps [simp del]

section \<open>The result object\<close>

text \<open>
  The backend's payload is untyped JSON, and the display components read it as such: a
  property may be missing, and what is there may be of any JSON kind. \<open>JUndefined\<close> is
  what reading a missing property gives. Numbers are the rationals (every finite double
  is one). An object is the list of its own properties, each key once.
\<close>

datatype json =
    JUndefined
  | JNull
  | JBool bool
  | JNum rat
  | JStr string
  | JArr "json list"
  | JObj "(string \<times> json) list"

text \<open>The result object itself is an object: the list of its properties.\<close>

type_synonym analysis_result = "(string \<times> json) list"

definition lookup :: "(string \<times> json) list \<Rightarrow> string \<Rightarrow> json" where
  "lookup kvs k = (case map_of kvs k of None \<Rightarrow> JUndefined | Some v \<Rightarrow> v)"

text \<open>\<open>const { k } = results\<close>.\<close>

definition field :: "analysis_result \<Rightarrow> string \<Rightarrow> json" where
  "field r k = lookup r k"

text \<open>A sub-object is absent when it is \<open>undefined\<close> or \<open>null\<close>.\<close>

definition absent :: "json \<Rightarrow> bool" where
  "absent v = (v = JUndefined \<or> v = JNull)"

fun truthy :: "json \<Rightarrow> bool" where
  "truthy JUndefined = False"
| "truthy JNull = False"
| "truthy (JBool b) = b"
| "truthy (JNum n) = (n \<noteq> 0)"
| "truthy (JStr s) = (s \<noteq> [])"
| "truthy (JArr xs) = True"
| "truthy (JObj kvs) = True"

text \<open>
  \<open>v.k\<close> for the data names the source reads (none of them is a method of a prototype)
  and for \<open>length\<close>: \<open>None\<close> when the read throws, which it does on \<open>undefined\<close> and
  \<open>null\<close> only. The length of a string is counted in bytes here and in UTF-16 units by
  the engine; the source only compares it with zero.
\<close>

fun get :: "json \<Rightarrow> string \<Rightarrow> json option" where
  "get JUndefined k = None"
| "get JNull k = None"
| "get (JObj kvs) k = Some (lookup kvs k)"
| "get (JArr xs) k = Some (if k = ''length'' then JNum (of_nat (length xs)) else JUndefined)"
| "get (JStr s) k = Some (if k = ''length'' then JNum (of_nat (length s)) else JUndefined)"
| "get (JNum n) k = Some JUndefined"
| "get (JBool b) k = Some JUndefined"

text \<open>
  \<open>v[0]\<close>. Of a string it is the first character, which no sentinel of the source (each
  longer than one character) is equal to.
\<close>

fun index0 :: "json \<Rightarrow> json option" where
  "index0 JUndefined = None"
| "index0 JNull = None"
| "index0 (JArr xs) = Some (case xs of [] \<Rightarrow> JUndefined | x # rest \<Rightarrow> x)"
| "index0 (JStr s) = Some (case s of [] \<Rightarrow> JUndefined | c # rest \<Rightarrow> JStr [c])"
| "index0 (JObj kvs) = Some (lookup kvs ''0'')"
| "index0 (JNum n) = Some JUndefined"
| "index0 (JBool b) = Some JUndefined"

text \<open>
  Conversion to a string, as a template literal and a numeric comparison make it, throws
  on an object whose own \<open>toString\<close> property hides the inherited method (a JSON value
  is never callable), and on an array with such an element.
\<close>

fun stringifies :: "json \<Rightarrow> bool" where
  "stringifies (JObj kvs) = (map_of kvs ''toString'' = None)"
| "stringifies (JArr xs) = list_all stringifies xs"
| "stringifies v = True"

text \<open>
  \<open>v.toLocaleString()\<close> returns: not on \<open>undefined\<close> or \<open>null\<close>; on an object only when
  neither \<open>toLocaleString\<close> nor \<open>toString\<close> is hidden by an own property; on an array
  when it does on every element other than \<open>undefined\<close> and \<open>null\<close>.
\<close>

fun localizes :: "json \<Rightarrow> bool" where
  "localizes JUndefined = False"
| "localizes JNull = False"
| "localizes (JObj kvs) =
     (map_of kvs ''toLocaleString'' = None \<and> map_of kvs ''toString'' = None)"
| "localizes (JArr xs) = list_all (\<lambda>x. x = JUndefined \<or> x = JNull \<or> localizes x) xs"
| "localizes v = True"

text \<open>
  \<open>v > 0\<close>: \<open>None\<close> when the conversion throws. What number a string or an array is
  converted to is the engine's floating-point parse; it is left open as the parameter
  \<open>num\<close>, which says whether that number is positive.
\<close>

fun gt_zero :: "(json \<Rightarrow> bool) \<Rightarrow> json \<Rightarrow> bool option" where
  "gt_zero num JUndefined = Some False"
| "gt_zero num JNull = Some False"
| "gt_zero num (JBool b) = Some b"
| "gt_zero num (JNum n) = Some (n > 0)"
| "gt_zero num (JStr s) = Some (num (JStr s))"
| "gt_zero num (JArr xs) = (if stringifies (JArr xs) then Some (num (JArr xs)) else None)"
| "gt_zero num (JObj kvs) = (if stringifies (JObj kvs) then Some False else None)"

text \<open>
  \<open>Object.entries(v)\<close> (and the keys of \<open>Object.keys(v)\<close>): throws on \<open>undefined\<close> and
  \<open>null\<close>; an array and a string give their indexed elements; a number and a boolean
  have none. The engine lists integer-like keys of an object first; the order is kept as
  given here.
\<close>

fun entries :: "json \<Rightarrow> (string \<times> json) list option" where
  "entries JUndefined = None"
| "entries JNull = None"
| "entries (JObj kvs) = Some kvs"
| "entries (JArr xs) = Some (zip (map string_of_nat [0..<length xs]) xs)"
| "entries (JStr s) =
     Some (zip (map string_of_nat [0..<length s]) (map (\<lambda>c. JStr [c]) s))"
| "entries (JNum n) = Some []"
| "entries (JBool b) = Some []"

section \<open>The App component: state and file intake\<close>

text \<open>A browser \<open>File\<close>: its name and its size in bytes.\<close>

record upload =
  name :: string
  size_f :: nat

text \<open>
  The seven \<open>useState\<close> cells of \<open>App\<close> (\<open>file\<close> is \<open>file_sel\<close> here), followed
  by the part of the browser that the handlers reach: the interval timers now scheduled (by handle), the handle held by the
  \<open>analyzeDocument\<close> call that is waiting for its response, and the next fresh handle.
\<close>

record app_state =
  file_sel :: "upload option"
  isDragging :: bool
  results :: "analysis_result option"
  loading :: bool
  error :: "string option"
  uploadProgress :: nat
  showFeatures :: bool
  intervals :: "nat list"
  pending :: "nat option"
  next_handle :: nat

definition initial_state :: app_state where
  "initial_state =
     \<lparr>file_sel = None, isDragging = False, results = None, loading = False, error = None,
      uploadProgress = 0, showFeatures = True, intervals = [], pending = None,
      next_handle = 0\<rparr>"

definition allowedTypes :: "string list" where
  "allowedTypes = [''.pdf'', ''.docx'', ''.txt'']"

definition maxSize :: nat where
  "maxSize = 50 * 1024 * 1024"

definition invalid_type_message :: string where
  "invalid_type_message = ''Invalid file type. Please upload PDF, DOCX, or TXT files.''"

definition too_large_message :: string where
  "too_large_message = ''File too large. Maximum size is 50MB.''"

definition fileExtension :: "string \<Rightarrow> string" where
  "fileExtension nm = ''.'' @ toLowerCase (pop (split_dot nm))"

definition validateAndSetFile :: "upload \<Rightarrow> app_state \<Rightarrow> app_state" where
  "validateAndSetFile selectedFile st =
     (if fileExtension (name selectedFile) \<notin> set allowedTypes
      then st\<lparr>error := Some invalid_type_message\<rparr>
      else if size_f selectedFile > maxSize
      then st\<lparr>error := Some too_large_message\<rparr>
      else st\<lparr>file_sel := Some selectedFile, error := None, results := None,
              showFeatures := False\<rparr>)"

definition resetApp :: "app_state \<Rightarrow> app_state" where
  "resetApp st =
     st\<lparr>file_sel := None, results := None, error := None, uploadProgress := 0,
        showFeatures := True\<rparr>"

section \<open>The App component: analysis submission\<close>

text \<open>
  How the request of \<open>analyzeDocument\<close> settles. \<open>Resolved d\<close>: the promise is fulfilled
  and \<open>response.data\<close> is \<open>d\<close> (\<open>None\<close> for \<open>null\<close>). \<open>Rejected detail\<close>: the promise
  is rejected and \<open>err.response?.data?.detail\<close> is \<open>detail\<close> (\<open>None\<close> when the chain
  yields \<open>undefined\<close>).
\<close>

datatype response = Resolved "analysis_result option" | Rejected "string option"

definition generic_failure_message :: string where
  "generic_failure_message = ''Analysis failed. Please try again.''"

text \<open>\<open>a || b\<close> on strings: \<open>undefined\<close> and the empty string are falsy.\<close>

definition or_else :: "string option \<Rightarrow> string \<Rightarrow> string" where
  "or_else a b = (case a of None \<Rightarrow> b | Some s \<Rightarrow> if s = [] then b else s)"

text \<open>
  The calls \<open>analyzeDocument\<close> makes after its \<open>await\<close>, kept as a list so that their
  order can be spoken about: four of the state setters of \<open>App\<close>, and \<open>clearInterval\<close>.
\<close>

datatype setter =
    SetResults "analysis_result option"
  | SetLoading bool
  | SetError "string option"
  | SetUploadProgress nat
  | ClearInterval nat

fun apply_setter :: "setter \<Rightarrow> app_state \<Rightarrow> app_state" where
  "apply_setter (SetResults r) st = st\<lparr>results := r\<rparr>"
| "apply_setter (SetLoading b) st = st\<lparr>loading := b\<rparr>"
| "apply_setter (SetError e) st = st\<lparr>error := e\<rparr>"
| "apply_setter (SetUploadProgress p) st = st\<lparr>uploadProgress := p\<rparr>"
| "apply_setter (ClearInterval h) st = st\<lparr>intervals := removeAll h (intervals st)\<rparr>"

definition apply_setters :: "setter list \<Rightarrow> app_state \<Rightarrow> app_state" where
  "apply_setters calls st = foldl (\<lambda>s c. apply_setter c s) st calls"

text \<open>
  \<open>analyzeDocument\<close> up to its \<open>await\<close>: nothing without a file; otherwise the three
  setters, \<open>setInterval\<close> (a fresh handle, now scheduled) and the request.
\<close>

definition analyzeDocument_begin :: "app_state \<Rightarrow> app_state" where
  "analyzeDocument_begin st =
     (case file_sel st of
        None \<Rightarrow> st
      | Some f \<Rightarrow>
          st\<lparr>loading := True, error := None, uploadProgress := 0,
             intervals := next_handle st # intervals st,
             pending := Some (next_handle st),
             next_handle := Suc (next_handle st)\<rparr>)"

text \<open>
  One firing of the interval with handle \<open>h\<close>: the updater passed to
  \<open>setUploadProgress\<close>. A handle that is not scheduled does not fire.
\<close>

definition progress_tick :: "nat \<Rightarrow> app_state \<Rightarrow> app_state" where
  "progress_tick h st =
     (if h \<in> set (intervals st)
      then (if uploadProgress st \<ge> 90
            then st\<lparr>intervals := removeAll h (intervals st), uploadProgress := 90\<rparr>
            else st\<lparr>uploadProgress := uploadProgress st + 10\<rparr>)
      else st)"

text \<open>
  \<open>analyzeDocument\<close> from its \<open>await\<close> on, for the call that holds interval handle
  \<open>h\<close>. Fulfilled: \<open>clearInterval\<close>, progress 100, then \<open>response.data.processing_time\<close>
  is read, which throws on \<open>null\<close> data and lands in the \<open>catch\<close> with an error that has
  no \<open>response\<close>; otherwise the data is stored. Rejected: the \<open>catch\<close> alone. The
  \<open>finally\<close> block closes both.
\<close>

definition analyzeDocument_calls :: "nat \<Rightarrow> response \<Rightarrow> setter list" where
  "analyzeDocument_calls h resp =
     (case resp of
        Resolved d \<Rightarrow>
          [ClearInterval h, SetUploadProgress 100] @
          (case d of
             None \<Rightarrow> [SetError (Some (or_else None generic_failure_message))]
           | Some data \<Rightarrow> [SetResults (Some data)])
      | Rejected detail \<Rightarrow> [SetError (Some (or_else detail generic_failure_message))])
     @ [SetLoading False]"

definition analyzeDocument_settle :: "nat \<Rightarrow> response \<Rightarrow> app_state \<Rightarrow> app_state" where
  "analyzeDocument_settle h resp st =
     (apply_setters (analyzeDocument_calls h resp) st)\<lparr>pending := None\<rparr>"

subsection \<open>Events\<close>

text \<open>
  What can happen to a mounted \<open>App\<close>. Each user event is offered only where the JSX
  renders its control: the drop zone and the file input while there is no result, the
  analyze button while there is a file and no result and \<open>loading\<close> is off
  (\<open>disabled={loading}\<close>), a reset control while there is a file or a result.
\<close>

datatype event =
    DragEnter
  | DragOver
  | DragLeave
  | Drop "upload option"
  | FileSelect "upload option"
  | ClickAnalyze
  | ClickReset
  | Tick nat
  | Settle response

definition handleDrop :: "upload option \<Rightarrow> app_state \<Rightarrow> app_state" where
  "handleDrop droppedFile st =
     (case droppedFile of
        None \<Rightarrow> st\<lparr>isDragging := False\<rparr>
      | Some f \<Rightarrow> validateAndSetFile f (st\<lparr>isDragging := False\<rparr>))"

definition handleFileSelect :: "upload option \<Rightarrow> app_state \<Rightarrow> app_state" where
  "handleFileSelect selectedFile st =
     (case selectedFile of None \<Rightarrow> st | Some f \<Rightarrow> validateAndSetFile f st)"

fun step :: "event \<Rightarrow> app_state \<Rightarrow> app_state" where
  "step DragEnter st = (if results st = None then st\<lparr>isDragging := True\<rparr> else st)"
| "step DragOver st = st"
| "step DragLeave st = (if results st = None then st\<lparr>isDragging := False\<rparr> else st)"
| "step (Drop f) st = (if results st = None then handleDrop f st else st)"
| "step (FileSelect f) st = (if results st = None then handleFileSelect f st else st)"
| "step ClickAnalyze st =
     (if results st = None \<and> file_sel st \<noteq> None \<and> \<not> loading st
      then analyzeDocument_begin st else st)"
| "step ClickReset st =
     (if file_sel st \<noteq> None \<or> results st \<noteq> None then resetApp st else st)"
| "step (Tick h) st = progress_tick h st"
| "step (Settle resp) st =
     (case pending st of None \<Rightarrow> st | Some h \<Rightarrow> analyzeDocument_settle h resp st)"

definition run :: "event list \<Rightarrow> app_state \<Rightarrow> app_state" where
  "run es st = foldl (\<lambda>s e. step e s) st es"

text \<open>
  What holds between \<open>loading\<close>, the request in flight and the progress value, in every
  state the events can reach.
\<close>

definition in_flight_inv :: "app_state \<Rightarrow> bool" where
  "in_flight_inv st =
     (case pending st of
        None \<Rightarrow> \<not> loading st
      | Some h \<Rightarrow>
          loading st \<and> results st = None \<and> uploadProgress st \<le> 90 \<and>
          uploadProgress st mod 10 = 0)"

section \<open>Rendering the result object\<close>

text \<open>
  A render returns its markup, or \<open>None\<close> when it throws: a \<open>TypeError\<close> from a property
  read or a method call, or React's error for an object in child position. Which
  exception comes first when several would is not modelled. Of the markup, the elements
  (by class name) that hold a value of the result are kept, in source order; headings
  and labels are left out.
\<close>

datatype node = TextNode string | NumberNode rat | LocalizedNode json | Elem string "node list"

type_synonym rendered = "node list option"

definition completes :: "rendered \<Rightarrow> bool" where
  "completes x = (x \<noteq> None)"

text \<open>Sibling expressions: all must evaluate.\<close>

fun siblings :: "rendered list \<Rightarrow> rendered" where
  "siblings [] = Some []"
| "siblings (x # xs) =
     Option.bind x (\<lambda>ns. Option.bind (siblings xs) (\<lambda>ms. Some (ns @ ms)))"

definition elem :: "string \<Rightarrow> rendered list \<Rightarrow> rendered" where
  "elem cls parts = map_option (\<lambda>ns. [Elem cls ns]) (siblings parts)"

text \<open>
  A value in child position \<open>{v}\<close>: \<open>undefined\<close>, \<open>null\<close> and the booleans print nothing,
  an array prints its elements, and React throws on any other object.
\<close>

fun child :: "json \<Rightarrow> rendered" where
  "child JUndefined = Some []"
| "child JNull = Some []"
| "child (JBool b) = Some []"
| "child (JNum n) = Some [NumberNode n]"
| "child (JStr s) = Some [TextNode s]"
| "child (JArr xs) = siblings (map child xs)"
| "child (JObj kvs) = None"

text \<open>\<open>{obj.k}\<close>: the property read, put in child position.\<close>

definition leaf :: "json \<Rightarrow> string \<Rightarrow> rendered" where
  "leaf obj k = Option.bind (get obj k) child"

text \<open>\<open>style={{ width: `${obj.k}%` }}\<close>: the read and the conversion; no node.\<close>

definition style :: "json \<Rightarrow> string \<Rightarrow> rendered" where
  "style obj k = Option.bind (get obj k) (\<lambda>v. if stringifies v then Some [] else None)"

text \<open>\<open>{v.toLocaleString()}\<close>; the text is the locale's.\<close>

definition call_toLocaleString :: "json \<Rightarrow> rendered" where
  "call_toLocaleString v = (if localizes v then Some [LocalizedNode v] else None)"

text \<open>\<open>{v.toUpperCase()}\<close>: only a string has the method.\<close>

definition call_toUpperCase :: "json \<Rightarrow> rendered" where
  "call_toUpperCase v = (case v of JStr s \<Rightarrow> Some [TextNode (toUpperCase s)] | _ \<Rightarrow> None)"

text \<open>\<open>{v.map(f)}\<close>: only an array has the method.\<close>

definition array_map :: "json \<Rightarrow> (json \<Rightarrow> rendered) \<Rightarrow> rendered" where
  "array_map v f = (case v of JArr xs \<Rightarrow> siblings (map f xs) | _ \<Rightarrow> None)"

text \<open>
  \<open>{v.slice(0, n).map(f)}\<close>: a string has \<open>slice\<close> too, but its slice has no \<open>map\<close>.
\<close>

definition slice_map :: "nat \<Rightarrow> json \<Rightarrow> (json \<Rightarrow> rendered) \<Rightarrow> rendered" where
  "slice_map n v f = (case v of JArr xs \<Rightarrow> siblings (map f (take n xs)) | _ \<Rightarrow> None)"

text \<open>\<open>{v && body}\<close>: a falsy \<open>v\<close> is itself the child (so \<open>0\<close> is printed).\<close>

definition guard :: "json \<Rightarrow> rendered \<Rightarrow> rendered" where
  "guard v body = (if truthy v then body else child v)"

subsection \<open>EnhancedResults\<close>

definition quality_banner :: "analysis_result \<Rightarrow> rendered" where
  "quality_banner r =
     (let quality_score = field r ''quality_score'' in
      guard quality_score
        (elem ''quality-banner''
           [leaf quality_score ''overall_score'',
            leaf quality_score ''rating'',
            Option.bind (get quality_score ''component_scores'') (\<lambda>cs.
            Option.bind (entries (if truthy cs then cs else JObj [])) (\<lambda>scores.
              elem ''component-scores''
                (map (\<lambda>(key, v).
                        elem ''mini-score''
                          [Some [TextNode key],
                           (if stringifies v then Some [] else None),
                           child v])
                     scores)))]))"

text \<open>
  A list section \<open>xs && xs[0] !== sentinel && (... xs.map(...) ...)\<close>, used for the key
  findings and for the three lists of research questions.
\<close>

definition guarded_list :: "string \<Rightarrow> string \<Rightarrow> json \<Rightarrow> rendered" where
  "guarded_list cls sentinel xs =
     guard xs
       (Option.bind (index0 xs) (\<lambda>first.
          if first \<noteq> JStr sentinel
          then elem cls [array_map xs (\<lambda>item. elem ''li'' [child item])]
          else Some []))"

definition summary_card :: "analysis_result \<Rightarrow> rendered" where
  "summary_card r =
     (let summary = field r ''summary'' in
      guard summary
        (Option.bind (get summary ''one_sentence'') (\<lambda>first.
           if first \<noteq> JStr ''Summary generation failed''
           then elem ''summary-card''
             [leaf summary ''one_sentence'',
              leaf summary ''executive_summary'',
              Option.bind (get summary ''key_findings'')
                (guarded_list ''findings-list'' ''Key findings not extracted'')]
           else Some [])))"

definition readability_card :: "analysis_result \<Rightarrow> rendered" where
  "readability_card r =
     (let readability_analysis = field r ''readability_analysis'' in
      guard readability_analysis
        (Option.bind (get readability_analysis ''error'') (\<lambda>err.
           if \<not> truthy err
           then elem ''readability-card''
             [leaf readability_analysis ''flesch_reading_ease'',
              leaf readability_analysis ''interpretation'',
              leaf readability_analysis ''academic_level'',
              leaf readability_analysis ''average_grade_level'',
              leaf readability_analysis ''average_sentence_length'',
              leaf readability_analysis ''sentence_count'']
           else Some [])))"

text \<open>\<open>xs && xs.length > 0 && (... xs.slice(0, 5).map(...) ...)\<close>.\<close>

definition authors_list :: "(json \<Rightarrow> bool) \<Rightarrow> json \<Rightarrow> rendered" where
  "authors_list num top_authors =
     guard top_authors
       (Option.bind (get top_authors ''length'') (\<lambda>len.
        Option.bind (gt_zero num len) (\<lambda>positive.
          if positive
          then elem ''authors-list''
            [slice_map 5 top_authors (\<lambda>author.
               elem ''author-item'' [leaf author ''author'', leaf author ''count''])]
          else Some [])))"

definition citations_card :: "(json \<Rightarrow> bool) \<Rightarrow> analysis_result \<Rightarrow> rendered" where
  "citations_card num r =
     (let citations_analysis = field r ''citations_analysis'' in
      guard citations_analysis
        (Option.bind (get citations_analysis ''total_references'') (\<lambda>total.
         Option.bind (gt_zero num total) (\<lambda>positive.
           if positive
           then elem ''citations-card''
             [leaf citations_analysis ''total_references'',
              leaf citations_analysis ''citation_style'',
              Option.bind (get citations_analysis ''top_authors'') (authors_list num)]
           else Some []))))"

definition questions_card :: "analysis_result \<Rightarrow> rendered" where
  "questions_card r =
     (let research_questions = field r ''research_questions'' in
      guard research_questions
        (elem ''questions-card''
           [Option.bind (get research_questions ''research_questions'')
              (guarded_list ''questions-list'' ''Not explicitly stated''),
            Option.bind (get research_questions ''hypotheses'')
              (guarded_list ''questions-list'' ''Not explicitly stated''),
            Option.bind (get research_questions ''objectives'')
              (guarded_list ''questions-list'' ''Not explicitly stated'')]))"

definition EnhancedResults :: "(json \<Rightarrow> bool) \<Rightarrow> analysis_result \<Rightarrow> rendered" where
  "EnhancedResults num r =
     elem ''enhanced-results''
       [quality_banner r, summary_card r, readability_card r, citations_card num r,
        questions_card r]"

subsection \<open>ResultsDashboard\<close>

text \<open>The dashboard reads its sub-objects without a test.\<close>

definition stats_row :: "analysis_result \<Rightarrow> rendered" where
  "stats_row r =
     (let statistics = field r ''statistics''; file_info = field r ''file_info'' in
      elem ''stats-row''
        [Option.bind (get statistics ''word_count'') call_toLocaleString,
         leaf file_info ''size_kb'',
         Option.bind (get file_info ''type'') call_toUpperCase,
         Option.bind (get statistics ''estimated_pages'') (\<lambda>pages.
           if pages \<noteq> JStr ''N/A''
           then elem ''stat-card'' [leaf statistics ''estimated_pages'']
           else Some [])])"

definition topic_card :: "analysis_result \<Rightarrow> rendered" where
  "topic_card r =
     (let topic_classification = field r ''topic_classification'' in
      elem ''topic-card''
        [leaf topic_classification ''primary_topic'',
         style topic_classification ''confidence'',
         leaf topic_classification ''confidence'',
         Option.bind (get topic_classification ''secondary_topics'') (\<lambda>topics.
           elem ''secondary-topics''
             [array_map topics (\<lambda>topic.
                elem ''secondary-topic'' [leaf topic ''topic'', leaf topic ''confidence''])])])"

definition contribution_card :: "analysis_result \<Rightarrow> rendered" where
  "contribution_card r =
     (let contribution_type = field r ''contribution_type'' in
      elem ''result-card''
        [leaf contribution_type ''contribution_type'',
         style contribution_type ''confidence'',
         leaf contribution_type ''confidence''])"

definition methodology_card :: "analysis_result \<Rightarrow> rendered" where
  "methodology_card r =
     (let methodology_classification = field r ''methodology_classification'' in
      elem ''result-card''
        [leaf methodology_classification ''primary_methodology'',
         style methodology_classification ''confidence'',
         Option.bind (get methodology_classification ''secondary_methodologies'') (\<lambda>methods.
           elem ''secondary-methods''
             [array_map methods (\<lambda>m.
                elem ''method-item'' [leaf m ''method'', leaf m ''confidence''])])])"

definition sentiment_card :: "analysis_result \<Rightarrow> rendered" where
  "sentiment_card r =
     (let sentiment_analysis = field r ''sentiment_analysis'' in
      elem ''result-card''
        [leaf sentiment_analysis ''sentiment'',
         leaf sentiment_analysis ''academic_tone'',
         style sentiment_analysis ''confidence'',
         leaf sentiment_analysis ''confidence''])"

definition sections_card :: "analysis_result \<Rightarrow> rendered" where
  "sections_card r =
     (let section_analysis = field r ''section_analysis'' in
      elem ''sections-card''
        [leaf section_analysis ''total_sections'',
         Option.bind (get section_analysis ''sections_found'') (\<lambda>found.
           elem ''sections-list''
             [array_map found (\<lambda>s. elem ''section-badge'' [child s])])])"

definition keywords_card :: "analysis_result \<Rightarrow> rendered" where
  "keywords_card r =
     elem ''keywords-card''
       [slice_map 12 (field r ''keywords'') (\<lambda>kw.
          elem ''keyword-tag'' [leaf kw ''keyword'', leaf kw ''relevance_score''])]"

text \<open>
  \<open>Object.keys(named_entities).length > 0 && (... Object.entries(named_entities).map(...))\<close>,
  each entry mapping over its value.
\<close>

definition entities_card :: "analysis_result \<Rightarrow> rendered" where
  "entities_card r =
     (let named_entities = field r ''named_entities'' in
      Option.bind (entries named_entities) (\<lambda>keys.
        if length keys > 0
        then Option.bind (entries named_entities) (\<lambda>groups.
          elem ''entities-card''
            (map (\<lambda>(ty, entities).
                    elem ''entity-group''
                      [Some [TextNode ty],
                       array_map entities (\<lambda>entity. elem ''entity-tag'' [child entity])])
                 groups))
        else Some []))"

definition ResultsDashboard :: "(json \<Rightarrow> bool) \<Rightarrow> analysis_result \<Rightarrow> rendered" where
  "ResultsDashboard num r =
     elem ''results-dashboard''
       [child (field r ''filename''),
        stats_row r,
        EnhancedResults num r,
        elem ''analysis-grid''
          [topic_card r, contribution_card r, methodology_card r, sentiment_card r,
           sections_card r, keywords_card r, entities_card r]]"

section \<open>Report export\<close>

text \<open>
  The component state of the dashboard, with what the browser has been asked to do: the
  alerts shown and the anchors clicked (by their \<open>download\<close> attribute), oldest first.
\<close>

record dashboard_state =
  downloading :: bool
  alerts :: "string list"
  downloads :: "string list"

text \<open>How a promise settles; a rejection carries the \<open>message\<close> of its error.\<close>

datatype 'a settled = Fulfilled 'a | Failed string

text \<open>
  The response of \<open>fetch\<close>: its \<open>ok\<close> and \<open>status\<close>, and what \<open>text()\<close> and \<open>blob()\<close>
  settle to (of the blob only its size is read).
\<close>

record http_response =
  ok :: bool
  status :: nat
  body_text :: "string settled"
  blob_size :: "nat settled"

text \<open>
  \<open>filename.replace(...)\<close> on a value that is not a string throws; the message is the
  engine's, and one engine's wording is fixed here.
\<close>

definition replace_error :: "json \<Rightarrow> string" where
  "replace_error v =
     (case v of
        JUndefined \<Rightarrow> ''filename is undefined''
      | JNull \<Rightarrow> ''filename is null''
      | _ \<Rightarrow> ''filename.replace is not a function'')"

text \<open>
  The \<open>try\<close> block: \<open>Inl m\<close> when it throws an error with message \<open>m\<close>, \<open>Inr f\<close> when
  it reaches \<open>a.click()\<close> on an anchor whose \<open>download\<close> attribute is \<open>f\<close>. The name is
  made from the \<open>filename\<close> of the result object, after the blob has been checked and
  before the anchor is clicked.
\<close>

definition download_attempt :: "analysis_result \<Rightarrow> http_response settled \<Rightarrow> string + string" where
  "download_attempt res fetched =
     (case fetched of
        Failed m \<Rightarrow> Inl m
      | Fulfilled response \<Rightarrow>
          if \<not> ok response
          then (case body_text response of
                  Failed m \<Rightarrow> Inl m
                | Fulfilled errorText \<Rightarrow>
                    Inl (''Server returned '' @ string_of_nat (status response) @ '': '' @
                         errorText))
          else (case blob_size response of
                  Failed m \<Rightarrow> Inl m
                | Fulfilled n \<Rightarrow>
                    if n = 0 then Inl ''Generated PDF is empty''
                    else (case field res ''filename'' of
                            JStr fn \<Rightarrow>
                              Inr (''analysis_report_'' @ strip_extension fn @ ''.pdf'')
                          | v \<Rightarrow> Inl (replace_error v))))"

definition downloadPDF_begin :: "dashboard_state \<Rightarrow> dashboard_state" where
  "downloadPDF_begin d = d\<lparr>downloading := True\<rparr>"

definition downloadPDF_settle ::
  "analysis_result \<Rightarrow> http_response settled \<Rightarrow> dashboard_state \<Rightarrow> dashboard_state" where
  "downloadPDF_settle res fetched d =
     (case download_attempt res fetched of
        Inr f \<Rightarrow>
          d\<lparr>downloads := downloads d @ [f],
            alerts := alerts d @ [''PDF report downloaded successfully!''],
            downloading := False\<rparr>
      | Inl m \<Rightarrow>
          d\<lparr>alerts := alerts d @ [''Failed to download PDF: '' @ m],
            downloading := False\<rparr>)"

definition downloadPDF ::
  "analysis_result \<Rightarrow> http_response settled \<Rightarrow> dashboard_state \<Rightarrow> dashboard_state" where
  "downloadPDF res fetched d = downloadPDF_settle res fetched (downloadPDF_begin d)"

section \<open>Sample inputs\<close>

definition example_upload :: upload where
  "example_upload = \<lparr>name = ''thesis.pdf'', size_f = 734003\<rparr>"

text \<open>A result with every sub-object the dashboard reads, and none of the optional ones.\<close>

definition example_result :: analysis_result where
  "example_result =
     [(''filename'', JStr ''thesis.pdf''),
      (''file_info'', JObj [(''size_kb'', JNum 717), (''type'', JStr ''pdf'')]),
      (''statistics'', JObj [(''word_count'', JNum 8421), (''estimated_pages'', JNum 17)]),
      (''topic_classification'',
         JObj [(''primary_topic'', JStr ''Computer Science''), (''confidence'', JNum 91),
               (''secondary_topics'',
                  JArr [JObj [(''topic'', JStr ''Mathematics''), (''confidence'', JNum 40)]])]),
      (''section_analysis'',
         JObj [(''total_sections'', JNum 2),
               (''sections_found'', JArr [JStr ''Abstract'', JStr ''Methods''])]),
      (''methodology_classification'',
         JObj [(''primary_methodology'', JStr ''Experimental''), (''confidence'', JNum 77),
               (''secondary_methodologies'', JArr [])]),
      (''sentiment_analysis'',
         JObj [(''sentiment'', JStr ''Neutral''), (''academic_tone'', JStr ''Formal''),
               (''confidence'', JNum 80)]),
      (''keywords'', JArr [JObj [(''keyword'', JStr ''lattice''), (''relevance_score'', JNum 64)]]),
      (''named_entities'', JObj [(''ORG'', JArr [JStr ''CERN''])]),
      (''contribution_type'',
         JObj [(''contribution_type'', JStr ''Empirical''), (''confidence'', JNum 70)])]"


definition without_filename :: analysis_result where
  "without_filename = filter (\<lambda>(k, v). k \<noteq> ''filename'') example_result"


text \<open>An instance of the open number conversion: no string or array counts as positive.\<close>

definition no_coercion :: "json \<Rightarrow> bool" where
  "no_coercion v = False"

section \<open>Facts about strings\<close>

lemmas string_defs = toLowerCase_def toLowerCase_char_def upper_letters_def lower_letters_def
  fileExtension_def pop_def allowedTypes_def

lemma split_dot_dotless: "CHR ''.'' \<notin> set s \<Longrightarrow> split_dot s = [s]"
  by (induction s) auto

lemma fileExtension_dotless:
  "CHR ''.'' \<notin> set nm \<Longrightarrow> fileExtension nm = CHR ''.'' # toLowerCase nm"
  by (simp add: fileExtension_def pop_def split_dot_dotless)

lemma strip_extension_suffix:
  assumes "ext \<noteq> []" "CHR ''.'' \<notin> set ext" "CHR ''/'' \<notin> set ext"
  shows "strip_extension (base @ ''.'' @ ext) = base"
proof -
  let ?P = "\<lambda>c. c \<noteq> CHR ''.'' \<and> c \<noteq> CHR ''/''"
  have r: "rev (base @ ''.'' @ ext) = rev ext @ CHR ''.'' # rev base" by simp
  have t: "takeWhile ?P (rev ext @ CHR ''.'' # rev base) = rev ext"
    using assms by (subst takeWhile_append2) auto
  show ?thesis
    unfolding strip_extension_def r t Let_def using assms by simp
qed

lemma strip_extension_dotless:
  assumes "CHR ''.'' \<notin> set s"
  shows "strip_extension s = s"
proof -
  let ?P = "\<lambda>c. c \<noteq> CHR ''.'' \<and> c \<noteq> CHR ''/''"
  let ?rest = "drop (length (takeWhile ?P (rev s))) (rev s)"
  have "hd ?rest \<noteq> CHR ''.''" if "?rest \<noteq> []"
  proof -
    have "hd ?rest \<in> set ?rest" using that by simp
    also have "\<dots> \<subseteq> set (rev s)" by (rule set_drop_subset)
    finally show ?thesis using assms by auto
  qed
  then show ?thesis
    unfolding strip_extension_def Let_def by auto
qed

section \<open>File intake\<close>

text \<open>
  C3, as amended. Every file larger than 52,428,800 bytes is rejected: only the error
  message changes. The extension is tested first, so the message is the oversized one
  when the extension is allowed and the invalid-type one when it is not.
\<close>

theorem validateAndSetFile_oversized:
  "size_f f > 52428800 \<Longrightarrow>
   validateAndSetFile f st =
     st\<lparr>error := Some (if fileExtension (name f) \<in> set allowedTypes
                       then too_large_message else invalid_type_message)\<rparr>"
  by (simp add: validateAndSetFile_def maxSize_def)

text \<open>C3 at an oversized \<open>thesis.pdf\<close>: the oversized message.\<close>

theorem validateAndSetFile_oversized_witness:
  "size_f \<lparr>name = ''thesis.pdf'', size_f = 52428801\<rparr> > 52428800 \<and>
   validateAndSetFile \<lparr>name = ''thesis.pdf'', size_f = 52428801\<rparr> initial_state =
     initial_state\<lparr>error := Some too_large_message\<rparr>"
  using validateAndSetFile_oversized
    [of "\<lparr>name = ''thesis.pdf'', size_f = 52428801\<rparr>" initial_state]
  by (simp add: string_defs)

text \<open>
  C3 as first stated fails at an oversized \<open>setup.exe\<close>: the message set is not the
  oversized one.
\<close>

theorem validateAndSetFile_oversized_counterexample:
  "size_f \<lparr>name = ''setup.exe'', size_f = 52428801\<rparr> > 52428800 \<and>
   error (validateAndSetFile \<lparr>name = ''setup.exe'', size_f = 52428801\<rparr> initial_state)
     \<noteq> Some too_large_message"
  by (simp add: validateAndSetFile_def string_defs invalid_type_message_def
      too_large_message_def)

text \<open>
  C8. When validation fails, for a disallowed extension or for the size, the state after
  the call is the state before it with a new error message and nothing else changed; in
  particular the selected file, the stored result and the feature panel are as before.
\<close>

theorem validateAndSetFile_rejection_frame:
  "fileExtension (name f) \<notin> set allowedTypes \<or> size_f f > maxSize \<Longrightarrow>
   validateAndSetFile f st =
     st\<lparr>error := Some (if fileExtension (name f) \<notin> set allowedTypes
                       then invalid_type_message else too_large_message)\<rparr> \<and>
   file_sel (validateAndSetFile f st) = file_sel st \<and>
   results (validateAndSetFile f st) = results st \<and>
   showFeatures (validateAndSetFile f st) = showFeatures st"
  by (auto simp: validateAndSetFile_def)

text \<open>C8 with \<open>thesis.pdf\<close> already selected and an oversized \<open>notes.txt\<close> offered.\<close>

theorem validateAndSetFile_rejection_frame_witness:
  "size_f \<lparr>name = ''notes.txt'', size_f = 60000000\<rparr> > maxSize \<and>
   validateAndSetFile \<lparr>name = ''notes.txt'', size_f = 60000000\<rparr>
       (initial_state\<lparr>file_sel := Some example_upload, showFeatures := False\<rparr>) =
     initial_state\<lparr>file_sel := Some example_upload, showFeatures := False,
                    error := Some too_large_message\<rparr> \<and>
   file_sel (validateAndSetFile \<lparr>name = ''notes.txt'', size_f = 60000000\<rparr>
       (initial_state\<lparr>file_sel := Some example_upload, showFeatures := False\<rparr>)) =
     Some example_upload"
  using validateAndSetFile_rejection_frame
    [of "\<lparr>name = ''notes.txt'', size_f = 60000000\<rparr>"
        "initial_state\<lparr>file_sel := Some example_upload, showFeatures := False\<rparr>"]
  by (simp add: maxSize_def string_defs invalid_type_message_def too_large_message_def)

text \<open>
  C9. From every state, reset yields no file, no result, no error, progress 0 and the
  feature panel visible; the remaining cells, the timers and the request in flight are
  not touched.
\<close>

theorem resetApp_yields:
  "file_sel (resetApp st) = None \<and> results (resetApp st) = None \<and>
   error (resetApp st) = None \<and> uploadProgress (resetApp st) = 0 \<and>
   showFeatures (resetApp st) \<and>
   isDragging (resetApp st) = isDragging st \<and> loading (resetApp st) = loading st \<and>
   intervals (resetApp st) = intervals st \<and> pending (resetApp st) = pending st \<and>
   next_handle (resetApp st) = next_handle st"
  by (simp add: resetApp_def)

text \<open>
  C10, as amended. For a name without a dot the extension is a dot followed by the whole
  name in lower case. So a file named \<open>pdf\<close>, \<open>docx\<close> or \<open>txt\<close>, in any letter case,
  passes the extension test; it is then stored when its size is within the limit and
  rejected with the oversized message when it is not. Every other name without a dot is
  rejected with the invalid-type message.
\<close>

theorem dotless_name_validation:
  "CHR ''.'' \<notin> set (name f) \<Longrightarrow>
   fileExtension (name f) = CHR ''.'' # toLowerCase (name f) \<and>
   validateAndSetFile f st =
     (if toLowerCase (name f) \<in> {''pdf'', ''docx'', ''txt''}
      then (if size_f f > maxSize
            then st\<lparr>error := Some too_large_message\<rparr>
            else st\<lparr>file_sel := Some f, error := None, results := None,
                    showFeatures := False\<rparr>)
      else st\<lparr>error := Some invalid_type_message\<rparr>)"
  by (auto simp: fileExtension_dotless validateAndSetFile_def allowedTypes_def)

text \<open>C10 at a file named \<open>DocX\<close>, which is stored, and at \<open>README\<close>, which is not.\<close>

theorem dotless_name_validation_witness:
  "CHR ''.'' \<notin> set (name \<lparr>name = ''DocX'', size_f = 2048\<rparr>) \<and>
   fileExtension ''DocX'' = ''.docx'' \<and>
   validateAndSetFile \<lparr>name = ''DocX'', size_f = 2048\<rparr> initial_state =
     initial_state\<lparr>file_sel := Some \<lparr>name = ''DocX'', size_f = 2048\<rparr>, error := None,
                    results := None, showFeatures := False\<rparr> \<and>
   CHR ''.'' \<notin> set (name \<lparr>name = ''README'', size_f = 2048\<rparr>) \<and>
   validateAndSetFile \<lparr>name = ''README'', size_f = 2048\<rparr> initial_state =
     initial_state\<lparr>error := Some invalid_type_message\<rparr>"
  using dotless_name_validation [of "\<lparr>name = ''DocX'', size_f = 2048\<rparr>" initial_state]
        dotless_name_validation [of "\<lparr>name = ''README'', size_f = 2048\<rparr>" initial_state]
  by (simp add: maxSize_def toLowerCase_def toLowerCase_char_def upper_letters_def
      lower_letters_def)

text \<open>
  C10 as first stated fails at an oversized file named \<open>pdf\<close>: it passes the extension
  test and is not stored.
\<close>

theorem dotless_name_validation_counterexample:
  "CHR ''.'' \<notin> set (name \<lparr>name = ''pdf'', size_f = 52428801\<rparr>) \<and>
   fileExtension (name \<lparr>name = ''pdf'', size_f = 52428801\<rparr>) \<in> set allowedTypes \<and>
   file_sel (validateAndSetFile \<lparr>name = ''pdf'', size_f = 52428801\<rparr> initial_state) = None \<and>
   error (validateAndSetFile \<lparr>name = ''pdf'', size_f = 52428801\<rparr> initial_state) =
     Some too_large_message"
  by (simp add: validateAndSetFile_def string_defs maxSize_def initial_state_def)

section \<open>Analysis submission\<close>

lemmas step_defs = run_def handleFileSelect_def handleDrop_def validateAndSetFile_def
  analyzeDocument_begin_def analyzeDocument_settle_def analyzeDocument_calls_def
  apply_setters_def progress_tick_def resetApp_def initial_state_def or_else_def
  maxSize_def example_upload_def string_defs

lemma run_snoc: "run (es @ [e]) st = step e (run es st)"
  by (simp add: run_def)

subsection \<open>The invariant of the reachable states\<close>

lemma validate_preserves_inv: "in_flight_inv st \<Longrightarrow> in_flight_inv (validateAndSetFile f st)"
  by (auto simp: in_flight_inv_def validateAndSetFile_def split: option.splits)

lemma reset_preserves_inv: "in_flight_inv st \<Longrightarrow> in_flight_inv (resetApp st)"
  by (auto simp: in_flight_inv_def resetApp_def split: option.splits)

lemma tick_preserves_inv: "in_flight_inv st \<Longrightarrow> in_flight_inv (progress_tick h st)"
  unfolding in_flight_inv_def progress_tick_def
  by (auto split: option.splits)

lemma begin_establishes_inv:
  "in_flight_inv st \<Longrightarrow> results st = None \<Longrightarrow> in_flight_inv (analyzeDocument_begin st)"
  by (auto simp: in_flight_inv_def analyzeDocument_begin_def split: option.splits)

lemma settle_not_loading: "\<not> loading (analyzeDocument_settle h resp st)"
  by (simp add: analyzeDocument_settle_def analyzeDocument_calls_def apply_setters_def)

lemma settle_pending: "pending (analyzeDocument_settle h resp st) = None"
  by (simp add: analyzeDocument_settle_def)

lemma settle_establishes_inv: "in_flight_inv (analyzeDocument_settle h resp st)"
  by (simp add: in_flight_inv_def settle_pending settle_not_loading)

lemma step_preserves_inv: "in_flight_inv st \<Longrightarrow> in_flight_inv (step e st)"
proof (cases e)
  case (Drop f)
  then show "in_flight_inv st \<Longrightarrow> ?thesis"
    by (cases f)
       (auto simp: handleDrop_def in_flight_inv_def validateAndSetFile_def
             split: option.splits)
next
  case (FileSelect f)
  then show "in_flight_inv st \<Longrightarrow> ?thesis"
    by (cases f) (auto simp: handleFileSelect_def intro: validate_preserves_inv)
next
  case (Settle resp)
  then show "in_flight_inv st \<Longrightarrow> ?thesis"
    by (cases "pending st") (auto simp: settle_establishes_inv)
qed (auto simp: tick_preserves_inv reset_preserves_inv begin_establishes_inv,
     auto simp: in_flight_inv_def split: option.splits)

lemma initial_inv: "in_flight_inv initial_state"
  by (simp add: in_flight_inv_def initial_state_def)

lemma run_preserves_inv: "in_flight_inv st \<Longrightarrow> in_flight_inv (run es st)"
  unfolding run_def by (induction es arbitrary: st) (auto simp: step_preserves_inv)

lemma reachable_inv: "in_flight_inv (run es initial_state)"
  by (rule run_preserves_inv [OF initial_inv])

lemma reachable_loading:
  "loading (run es initial_state) = (pending (run es initial_state) \<noteq> None)"
  using reachable_inv [of es] by (auto simp: in_flight_inv_def split: option.splits)

lemma in_flight_results:
  "pending (run es initial_state) \<noteq> None \<Longrightarrow> results (run es initial_state) = None"
  using reachable_inv [of es] by (auto simp: in_flight_inv_def split: option.splits)

subsection \<open>The progress timer\<close>

text \<open>On a fulfilled request the interval of the call is no longer scheduled.\<close>

lemma settle_resolved_clears_interval:
  "h \<notin> set (intervals (analyzeDocument_settle h (Resolved d) st))"
  by (cases d)
     (simp_all add: analyzeDocument_settle_def analyzeDocument_calls_def apply_setters_def)

text \<open>
  C2. The claim asks that the timer be cancelled when the request settles, fulfilled or
  rejected. The code cancels it on the fulfilled path only: after a file is selected, the
  analysis started and the request rejected, the interval is still scheduled though
  \<open>loading\<close> is off, and its next firing moves the progress from 0 to 10.
\<close>

theorem failed_request_leaves_interval:
  "intervals (run [FileSelect (Some example_upload), ClickAnalyze, Settle (Rejected None)]
                initial_state) = [0] \<and>
   \<not> loading (run [FileSelect (Some example_upload), ClickAnalyze, Settle (Rejected None)]
                initial_state) \<and>
   uploadProgress (run [FileSelect (Some example_upload), ClickAnalyze,
                        Settle (Rejected None), Tick 0] initial_state) = 10"
  by (simp add: step_defs)

text \<open>
  C4. In every reachable state with a request in flight the progress is at most 90. On a
  fulfilled request with data, every state along the calls that follow the \<open>await\<close> in
  which a result is stored already has progress 100 (the result having been unset when
  the response arrived), and the calls end with progress 100 and the data stored.
\<close>

theorem progress_capped_then_complete:
  "(pending (run es initial_state) \<noteq> None \<longrightarrow> uploadProgress (run es initial_state) \<le> 90) \<and>
   (results st = None \<longrightarrow>
      (\<forall>k. results (apply_setters (take k (analyzeDocument_calls h (Resolved (Some data)))) st)
             \<noteq> None \<longrightarrow>
           uploadProgress
             (apply_setters (take k (analyzeDocument_calls h (Resolved (Some data)))) st) =
           100)) \<and>
   uploadProgress (analyzeDocument_settle h (Resolved (Some data)) st) = 100 \<and>
   results (analyzeDocument_settle h (Resolved (Some data)) st) = Some data"
proof -
  have capped:
    "pending (run es initial_state) \<noteq> None \<longrightarrow> uploadProgress (run es initial_state) \<le> 90"
    using reachable_inv [of es] by (auto simp: in_flight_inv_def split: option.splits)
  have ordered:
    "results (apply_setters (take k (analyzeDocument_calls h (Resolved (Some data)))) st)
       \<noteq> None \<longrightarrow>
     uploadProgress
       (apply_setters (take k (analyzeDocument_calls h (Resolved (Some data)))) st) = 100"
    if "results st = None" for k
  proof -
    consider "k = 0" | "k = 1" | "k = 2" | "k = 3" | "k \<ge> 4" by linarith
    then show ?thesis
      using that
      by cases
         (simp_all add: analyzeDocument_calls_def apply_setters_def numeral_2_eq_2
            numeral_3_eq_3)
  qed
  have final:
    "uploadProgress (analyzeDocument_settle h (Resolved (Some data)) st) = 100 \<and>
     results (analyzeDocument_settle h (Resolved (Some data)) st) = Some data"
    by (simp add: analyzeDocument_settle_def analyzeDocument_calls_def apply_setters_def)
  from capped ordered final show ?thesis by blast
qed

text \<open>
  C4 after eleven firings of the timer with the request still in flight, and at the
  third call after a fulfilled response.
\<close>

theorem progress_capped_then_complete_witness:
  "pending (run [FileSelect (Some example_upload), ClickAnalyze, Tick 0, Tick 0, Tick 0,
                 Tick 0, Tick 0, Tick 0, Tick 0, Tick 0, Tick 0, Tick 0, Tick 0]
              initial_state) \<noteq> None \<and>
   uploadProgress (run [FileSelect (Some example_upload), ClickAnalyze, Tick 0, Tick 0,
                        Tick 0, Tick 0, Tick 0, Tick 0, Tick 0, Tick 0, Tick 0, Tick 0,
                        Tick 0]
              initial_state) \<le> 90 \<and>
   results initial_state = None \<and>
   results (apply_setters (take 3 (analyzeDocument_calls 0 (Resolved (Some example_result))))
              initial_state) \<noteq> None \<and>
   uploadProgress
     (apply_setters (take 3 (analyzeDocument_calls 0 (Resolved (Some example_result))))
        initial_state) = 100"
proof -
  have p: "pending (run [FileSelect (Some example_upload), ClickAnalyze, Tick 0, Tick 0,
                         Tick 0, Tick 0, Tick 0, Tick 0, Tick 0, Tick 0, Tick 0, Tick 0,
                         Tick 0]
              initial_state) \<noteq> None"
    by (simp add: step_defs)
  have r: "results initial_state = None"
    by (simp add: initial_state_def)
  have s: "results (apply_setters
                      (take 3 (analyzeDocument_calls 0 (Resolved (Some example_result))))
                      initial_state) \<noteq> None"
    by (simp add: analyzeDocument_calls_def apply_setters_def numeral_3_eq_3)
  show ?thesis
    using p r s
      progress_capped_then_complete
        [of "[FileSelect (Some example_upload), ClickAnalyze, Tick 0, Tick 0, Tick 0,
              Tick 0, Tick 0, Tick 0, Tick 0, Tick 0, Tick 0, Tick 0, Tick 0]"
            initial_state 0 example_result]
    by blast
qed

subsection \<open>Failure\<close>

lemma settle_rejected_error:
  "error (analyzeDocument_settle h (Rejected detail) st) =
     Some (or_else detail generic_failure_message)"
  by (simp add: analyzeDocument_settle_def analyzeDocument_calls_def apply_setters_def)

lemma settle_rejected_results:
  "results (analyzeDocument_settle h (Rejected detail) st) = results st"
  by (simp add: analyzeDocument_settle_def analyzeDocument_calls_def apply_setters_def)

text \<open>
  C5, as amended. On a rejected request the error is the backend's detail when there is
  one and it is not the empty string, and the generic message otherwise. The call does
  not touch the result, and in every reachable state with a request in flight the result
  is unset, so it is unset after the failure too.
\<close>

theorem failed_analysis_error:
  "error (analyzeDocument_settle h (Rejected detail) st) =
     Some (case detail of
             None \<Rightarrow> generic_failure_message
           | Some d \<Rightarrow> if d = [] then generic_failure_message else d) \<and>
   results (analyzeDocument_settle h (Rejected detail) st) = results st \<and>
   (pending (run es initial_state) \<noteq> None \<longrightarrow>
      results (run (es @ [Settle (Rejected detail)]) initial_state) = None)"
proof -
  have "results (run (es @ [Settle (Rejected detail)]) initial_state) = None"
    if "pending (run es initial_state) \<noteq> None"
    using that in_flight_results [OF that]
    by (auto simp: run_snoc settle_rejected_results)
  then show ?thesis
    by (simp add: settle_rejected_error settle_rejected_results or_else_def)
qed

text \<open>C5 at a request rejected with the detail \<open>Unsupported document\<close>.\<close>

theorem failed_analysis_error_witness:
  "pending (run [FileSelect (Some example_upload), ClickAnalyze] initial_state) \<noteq> None \<and>
   results (run ([FileSelect (Some example_upload), ClickAnalyze] @
                 [Settle (Rejected (Some ''Unsupported document''))]) initial_state) = None \<and>
   error (analyzeDocument_settle 0 (Rejected (Some ''Unsupported document'')) initial_state) =
     Some ''Unsupported document''"
proof -
  have p: "pending (run [FileSelect (Some example_upload), ClickAnalyze] initial_state) \<noteq> None"
    by (simp add: step_defs)
  show ?thesis
    using p failed_analysis_error
      [of 0 "Some ''Unsupported document''" initial_state
          "[FileSelect (Some example_upload), ClickAnalyze]"]
    by simp
qed

text \<open>
  C5 as first stated fails when the error response contains a detail that is the empty
  string: the error set is not that detail.
\<close>

theorem failed_analysis_error_counterexample:
  "error (run [FileSelect (Some example_upload), ClickAnalyze, Settle (Rejected (Some ''''))]
            initial_state) \<noteq> Some ''''"
  by (simp add: step_defs generic_failure_message_def)

section \<open>Rendering\<close>

lemmas json_defs = field_def lookup_def absent_def

lemma completes_None [simp]: "\<not> completes None"
  by (simp add: completes_def)

lemma completes_Some [simp]: "completes (Some ns)"
  by (simp add: completes_def)

lemma completes_siblings: "completes (siblings xs) = list_all completes xs"
proof (induction xs)
  case Nil
  then show ?case by (simp add: completes_def)
next
  case (Cons x xs)
  then show ?case
    by (cases x; cases "siblings xs") (simp_all add: completes_def)
qed

lemma completes_elem: "completes (elem cls xs) = list_all completes xs"
  by (simp add: elem_def completes_def flip: completes_siblings)







subsection \<open>EnhancedResults skips what is absent or marked\<close>










subsection \<open>ResultsDashboard reads without a test\<close>











text \<open>Nor is a sub-object that is present enough: an empty \<open>statistics\<close> throws too.\<close>

lemma stats_row_empty_statistics:
  "field r ''statistics'' = JObj [] \<Longrightarrow> \<not> completes (stats_row r)"
  by (simp add: stats_row_def completes_elem lookup_def call_toLocaleString_def Let_def)


text \<open>The sample result renders, so the dashboard's reads can all succeed.\<close>

lemma example_result_renders: "completes (ResultsDashboard no_coercion example_result)"
  by (simp add: completes_def json_defs example_result_def ResultsDashboard_def
      EnhancedResults_def stats_row_def topic_card_def contribution_card_def
      methodology_card_def sentiment_card_def sections_card_def keywords_card_def
      entities_card_def quality_banner_def summary_card_def readability_card_def
      citations_card_def questions_card_def guard_def elem_def leaf_def style_def
      call_toLocaleString_def call_toUpperCase_def array_map_def slice_map_def)




section \<open>Busy flags and report export\<close>

lemma downloadPDF_not_downloading: "\<not> downloading (downloadPDF res fetched d)"
  by (simp add: downloadPDF_def downloadPDF_settle_def split: sum.splits)

text \<open>
  C6. When \<open>analyzeDocument\<close> finishes, however its request settled, \<open>loading\<close> is off;
  in every reachable state \<open>loading\<close> is on exactly while a request is in flight, and
  none is in flight once a response has been handled. When \<open>downloadPDF\<close> finishes,
  whatever \<open>fetch\<close> and the body gave, \<open>downloading\<close> is off.
\<close>

theorem busy_flags_cleared:
  "\<not> loading (analyzeDocument_settle h resp st) \<and>
   loading (run es initial_state) = (pending (run es initial_state) \<noteq> None) \<and>
   pending (step (Settle resp) (run es initial_state)) = None \<and>
   \<not> downloading (downloadPDF res fetched d)"
proof -
  have "pending (step (Settle resp) (run es initial_state)) = None"
    by (cases "pending (run es initial_state)") (simp_all add: settle_pending)
  then show ?thesis
    by (simp add: settle_not_loading reachable_loading downloadPDF_not_downloading)
qed


text \<open>
  C7, as amended. A fulfilled response with an empty blob and a response that is not
  \<open>ok\<close> each end in one failure alert and no download. An \<open>ok\<close> response with a
  non-empty blob ends in one download when the \<open>filename\<close> of the result object is a
  string: it is named \<open>analysis_report_\<close>, that filename without its extension, \<open>.pdf\<close>;
  the extension removed is the final dot with what follows it, and a name without a dot
  is kept whole. When the \<open>filename\<close> is missing or not a string, the same response ends
  in a failure alert and no download.
\<close>

theorem downloadPDF_outcomes:
  "(ok resp \<and> blob_size resp = Fulfilled 0 \<longrightarrow>
      downloadPDF res (Fulfilled resp) d =
        d\<lparr>alerts := alerts d @ [''Failed to download PDF: Generated PDF is empty''],
          downloading := False\<rparr>) \<and>
   (\<not> ok resp \<longrightarrow>
      downloadPDF res (Fulfilled resp) d =
        d\<lparr>alerts := alerts d @
             [''Failed to download PDF: '' @
              (case body_text resp of
                 Failed m \<Rightarrow> m
               | Fulfilled errorText \<Rightarrow>
                   ''Server returned '' @ string_of_nat (status resp) @ '': '' @ errorText)],
          downloading := False\<rparr>) \<and>
   (ok resp \<and> blob_size resp = Fulfilled n \<and> n > 0 \<and> field res ''filename'' = JStr fn \<longrightarrow>
      downloads (downloadPDF res (Fulfilled resp) d) =
        downloads d @ [''analysis_report_'' @ strip_extension fn @ ''.pdf''] \<and>
      alerts (downloadPDF res (Fulfilled resp) d) =
        alerts d @ [''PDF report downloaded successfully!'']) \<and>
   (ok resp \<and> blob_size resp = Fulfilled n \<and> n > 0 \<and>
    (case field res ''filename'' of JStr s \<Rightarrow> False | _ \<Rightarrow> True) \<longrightarrow>
      downloadPDF res (Fulfilled resp) d =
        d\<lparr>alerts := alerts d @
             [''Failed to download PDF: '' @ replace_error (field res ''filename'')],
          downloading := False\<rparr>) \<and>
   (ext \<noteq> [] \<and> CHR ''.'' \<notin> set ext \<and> CHR ''/'' \<notin> set ext \<longrightarrow>
      strip_extension (base @ ''.'' @ ext) = base) \<and>
   (CHR ''.'' \<notin> set fn \<longrightarrow> strip_extension fn = fn)"
proof -
  have empty: "downloadPDF res (Fulfilled resp) d =
        d\<lparr>alerts := alerts d @ [''Failed to download PDF: Generated PDF is empty''],
          downloading := False\<rparr>" if "ok resp \<and> blob_size resp = Fulfilled 0"
    using that
    by (simp add: downloadPDF_def downloadPDF_settle_def downloadPDF_begin_def
        download_attempt_def)
  have failed: "downloadPDF res (Fulfilled resp) d =
        d\<lparr>alerts := alerts d @
             [''Failed to download PDF: '' @
              (case body_text resp of
                 Failed m \<Rightarrow> m
               | Fulfilled errorText \<Rightarrow>
                   ''Server returned '' @ string_of_nat (status resp) @ '': '' @ errorText)],
          downloading := False\<rparr>"
    if "\<not> ok resp"
    using that
    by (cases "body_text resp")
       (simp_all add: downloadPDF_def downloadPDF_settle_def downloadPDF_begin_def
          download_attempt_def)
  have saved: "downloads (downloadPDF res (Fulfilled resp) d) =
        downloads d @ [''analysis_report_'' @ strip_extension fn @ ''.pdf''] \<and>
      alerts (downloadPDF res (Fulfilled resp) d) =
        alerts d @ [''PDF report downloaded successfully!'']"
    if "ok resp \<and> blob_size resp = Fulfilled n \<and> n > 0 \<and> field res ''filename'' = JStr fn"
    using that
    by (simp add: downloadPDF_def downloadPDF_settle_def downloadPDF_begin_def
        download_attempt_def)
  have unnamed: "downloadPDF res (Fulfilled resp) d =
        d\<lparr>alerts := alerts d @
             [''Failed to download PDF: '' @ replace_error (field res ''filename'')],
          downloading := False\<rparr>"
    if "ok resp \<and> blob_size resp = Fulfilled n \<and> n > 0 \<and>
        (case field res ''filename'' of JStr s \<Rightarrow> False | _ \<Rightarrow> True)"
    using that
    by (cases "field res ''filename''")
       (simp_all add: downloadPDF_def downloadPDF_settle_def downloadPDF_begin_def
          download_attempt_def)
  from empty failed saved unnamed show ?thesis
    using strip_extension_suffix [of ext base] strip_extension_dotless [of fn] by blast
qed

text \<open>
  C7 for the result of \<open>thesis.pdf\<close>: an empty blob, a non-empty blob, and a response
  with status 500; and for a result whose \<open>filename\<close> is a number.
\<close>

theorem downloadPDF_outcomes_witness:
  "downloadPDF example_result
      (Fulfilled \<lparr>ok = True, status = 200, body_text = Fulfilled [], blob_size = Fulfilled 0\<rparr>)
      \<lparr>downloading = False, alerts = [], downloads = []\<rparr> =
     \<lparr>downloading = False,
      alerts = [''Failed to download PDF: Generated PDF is empty''], downloads = []\<rparr> \<and>
   downloads (downloadPDF example_result
      (Fulfilled \<lparr>ok = True, status = 200, body_text = Fulfilled [],
                 blob_size = Fulfilled 48213\<rparr>)
      \<lparr>downloading = False, alerts = [], downloads = []\<rparr>) = [''analysis_report_thesis.pdf''] \<and>
   downloadPDF example_result
      (Fulfilled \<lparr>ok = False, status = 500, body_text = Fulfilled ''boom'',
                 blob_size = Fulfilled 4\<rparr>)
      \<lparr>downloading = False, alerts = [], downloads = []\<rparr> =
     \<lparr>downloading = False,
      alerts = [''Failed to download PDF: Server returned 500: boom''], downloads = []\<rparr> \<and>
   downloadPDF [(''filename'', JNum 7)]
      (Fulfilled \<lparr>ok = True, status = 200, body_text = Fulfilled [],
                 blob_size = Fulfilled 48213\<rparr>)
      \<lparr>downloading = False, alerts = [], downloads = []\<rparr> =
     \<lparr>downloading = False,
      alerts = [''Failed to download PDF: filename.replace is not a function''],
      downloads = []\<rparr>"
proof -
  have n: "string_of_nat 500 = ''500''"
    by (simp add: string_of_nat.simps)
  show ?thesis
    using
      downloadPDF_outcomes
        [of "\<lparr>ok = True, status = 200, body_text = Fulfilled [], blob_size = Fulfilled 0\<rparr>"
            example_result "\<lparr>downloading = False, alerts = [], downloads = []\<rparr>"
            0 "''thesis.pdf''" "''pdf''" "''thesis''"]
      downloadPDF_outcomes
        [of "\<lparr>ok = True, status = 200, body_text = Fulfilled [],
              blob_size = Fulfilled 48213\<rparr>"
            example_result "\<lparr>downloading = False, alerts = [], downloads = []\<rparr>"
            48213 "''thesis.pdf''" "''pdf''" "''thesis''"]
      downloadPDF_outcomes
        [of "\<lparr>ok = False, status = 500, body_text = Fulfilled ''boom'',
              blob_size = Fulfilled 4\<rparr>"
            example_result "\<lparr>downloading = False, alerts = [], downloads = []\<rparr>"
            4 "''thesis.pdf''" "''pdf''" "''thesis''"]
      downloadPDF_outcomes
        [of "\<lparr>ok = True, status = 200, body_text = Fulfilled [],
              blob_size = Fulfilled 48213\<rparr>"
            "[(''filename'', JNum 7)]" "\<lparr>downloading = False, alerts = [], downloads = []\<rparr>"
            48213 "''thesis.pdf''" "''pdf''" "''thesis''"]
    by (simp add: example_result_def json_defs replace_error_def n)
qed

text \<open>
  C7 as first stated fails at a result without a \<open>filename\<close>: an \<open>ok\<close> response with a
  non-empty blob ends in a failure alert and no download.
\<close>

theorem downloadPDF_outcomes_counterexample:
  "field without_filename ''filename'' = JUndefined \<and>
   downloadPDF without_filename
      (Fulfilled \<lparr>ok = True, status = 200, body_text = Fulfilled [],
                 blob_size = Fulfilled 48213\<rparr>)
      \<lparr>downloading = False, alerts = [], downloads = []\<rparr> =
     \<lparr>downloading = False,
      alerts = [''Failed to download PDF: filename is undefined''], downloads = []\<rparr>"
  by (simp add: json_defs without_filename_def example_result_def downloadPDF_def
      downloadPDF_settle_def downloadPDF_begin_def download_attempt_def replace_error_def)

end
